theory Spec2Isabelle
  imports Complex_Main
begin

section \<open>Numbers: numpy float64 values\<close>

text \<open>
  The close prices are a numpy array of float64. A value is a finite number, negative
  zero, an infinity or NaN; \<open>Fin 0\<close> is positive zero. Finite arithmetic is taken as
  exact: the rounding, overflow and underflow of binary64 arithmetic are not modelled
  (the conversion of an integer too large for a float is: it raises, see below). What is
  modelled is what the code relies on where no finite result exists: numpy does not raise
  on a division by zero (it warns and returns an infinity or NaN), every ordering
  comparison with NaN is false, and the two zeros compare equal.
\<close>

datatype float64 = Fin real | NegZero | PInf | NInf | NaN

fun sign_bit :: "float64 \<Rightarrow> bool" where
  "sign_bit (Fin r) = (r < 0)"
| "sign_bit NegZero = True"
| "sign_bit PInf = False"
| "sign_bit NInf = True"
| "sign_bit NaN = False"

fun is_zero :: "float64 \<Rightarrow> bool" where
  "is_zero (Fin r) = (r = 0)"
| "is_zero NegZero = True"
| "is_zero PInf = False"
| "is_zero NInf = False"
| "is_zero NaN = False"

fun is_inf :: "float64 \<Rightarrow> bool" where
  "is_inf PInf = True"
| "is_inf NInf = True"
| "is_inf (Fin r) = False"
| "is_inf NegZero = False"
| "is_inf NaN = False"

fun fin_val :: "float64 \<Rightarrow> real" where
  "fin_val (Fin r) = r"
| "fin_val NegZero = 0"
| "fin_val PInf = 0"
| "fin_val NInf = 0"
| "fin_val NaN = 0"

definition zero_of :: "bool \<Rightarrow> float64" where
  "zero_of neg = (if neg then NegZero else Fin 0)"

definition inf_of :: "bool \<Rightarrow> float64" where
  "inf_of neg = (if neg then NInf else PInf)"

text \<open>\<^verbatim>\<open>a < b\<close> and \<^verbatim>\<open>a == b\<close> on float64.\<close>

fun f_lt :: "float64 \<Rightarrow> float64 \<Rightarrow> bool" where
  "f_lt NaN b = False"
| "f_lt a NaN = False"
| "f_lt PInf b = False"
| "f_lt a PInf = True"
| "f_lt a NInf = False"
| "f_lt NInf b = True"
| "f_lt a b = (fin_val a < fin_val b)"

fun f_eq :: "float64 \<Rightarrow> float64 \<Rightarrow> bool" where
  "f_eq NaN b = False"
| "f_eq a NaN = False"
| "f_eq PInf b = (b = PInf)"
| "f_eq a PInf = False"
| "f_eq NInf b = (b = NInf)"
| "f_eq a NInf = False"
| "f_eq a b = (fin_val a = fin_val b)"

text \<open>Unary minus, \<^verbatim>\<open>np.abs\<close>, subtraction and true division.\<close>

fun f_neg :: "float64 \<Rightarrow> float64" where
  "f_neg (Fin r) = (if r = 0 then NegZero else Fin (- r))"
| "f_neg NegZero = Fin 0"
| "f_neg PInf = NInf"
| "f_neg NInf = PInf"
| "f_neg NaN = NaN"

fun f_abs :: "float64 \<Rightarrow> float64" where
  "f_abs (Fin r) = Fin \<bar>r\<bar>"
| "f_abs NegZero = Fin 0"
| "f_abs PInf = PInf"
| "f_abs NInf = PInf"
| "f_abs NaN = NaN"

fun f_sub :: "float64 \<Rightarrow> float64 \<Rightarrow> float64" where
  "f_sub NaN b = NaN"
| "f_sub a NaN = NaN"
| "f_sub PInf b = (if b = PInf then NaN else PInf)"
| "f_sub NInf b = (if b = NInf then NaN else NInf)"
| "f_sub a PInf = NInf"
| "f_sub a NInf = PInf"
| "f_sub NegZero (Fin r) = (if r = 0 then NegZero else Fin (- r))"
| "f_sub NegZero NegZero = Fin 0"
| "f_sub (Fin r) NegZero = Fin r"
| "f_sub (Fin a) (Fin b) = Fin (a - b)"

definition f_div :: "float64 \<Rightarrow> float64 \<Rightarrow> float64" where
  "f_div a b =
     (if a = NaN \<or> b = NaN then NaN
      else if is_inf a then (if is_inf b then NaN else inf_of (sign_bit a \<noteq> sign_bit b))
      else if is_inf b then zero_of (sign_bit a \<noteq> sign_bit b)
      else if is_zero b then (if is_zero a then NaN else inf_of (sign_bit a \<noteq> sign_bit b))
      else if is_zero a then zero_of (sign_bit a \<noteq> sign_bit b)
      else Fin (fin_val a / fin_val b))"


section \<open>Values: decoded JSON, Python exceptions, the outside world\<close>

text \<open>
  What \<^verbatim>\<open>json.loads\<close> returns, and what the result dictionaries are built from. A
  dictionary is a list of key and value pairs read with \<open>map_of\<close>; the keys of a decoded
  object are distinct (the decoder keeps the last of a repeated key).
\<close>

datatype json =
    JNull
  | JBool bool
  | JInt int
  | JFloat float64
  | JStr string
  | JArr "json list"
  | JObj "(string \<times> json) list"

datatype pyexn =
    ValueError string
  | TypeError string
  | AttributeError string
  | OverflowError string
  | OtherError string

fun str :: "pyexn \<Rightarrow> string" where
  "str (ValueError m) = m"
| "str (TypeError m) = m"
| "str (AttributeError m) = m"
| "str (OverflowError m) = m"
| "str (OtherError m) = m"

text \<open>\<^verbatim>\<open>d.get(k, default)\<close> on a dict, and Python truthiness (\<^verbatim>\<open>not price_data\<close>).\<close>

definition dict_get :: "(string \<times> json) list \<Rightarrow> string \<Rightarrow> json \<Rightarrow> json" where
  "dict_get d k dflt = (case map_of d k of None \<Rightarrow> dflt | Some v \<Rightarrow> v)"

fun truthy :: "json \<Rightarrow> bool" where
  "truthy JNull = False"
| "truthy (JBool b) = b"
| "truthy (JInt i) = (i \<noteq> 0)"
| "truthy (JFloat x) = (\<not> f_eq x (Fin 0))"
| "truthy (JStr s) = (s \<noteq> [])"
| "truthy (JArr xs) = (xs \<noteq> [])"
| "truthy (JObj kvs) = (kvs \<noteq> [])"

fun is_obj :: "json \<Rightarrow> bool" where
  "is_obj (JObj kvs) = True"
| "is_obj j = False"

fun obj_fields :: "json \<Rightarrow> (string \<times> json) list" where
  "obj_fields (JObj kvs) = kvs"
| "obj_fields j = []"

text \<open>
  A pandas DataFrame, as far as the code reads it: the number of rows and the named
  columns.
\<close>

record frame =
  n_rows :: nat
  cols :: "(string \<times> json list) list"

datatype loads_result = JSONDecodeError | LoadsRaised pyexn | Loaded json

datatype event =
    LogInfo string
  | LogError string
  | LogException string
  | Print string
  | PublishToQueue "json list"
  | BasicAck
  | BasicNack bool

text \<open>
  The libraries and services the code calls are not part of the repository. Their
  behaviour is a parameter of every function that reaches them:
  \<^item> \<open>json_loads\<close>: \<^verbatim>\<open>json.loads\<close> on a message body; it raises JSONDecodeError, raises
    something else (a body that is not valid UTF-8), or returns a value;
  \<^item> \<open>DataFrame_other\<close>: the \<^verbatim>\<open>pd.DataFrame\<close> constructor on anything but a non-empty
    list of dicts (it raises on scalars and strings, and builds frames from other
    shapes);
  \<^item> \<open>float_of_str\<close>: Python's \<^verbatim>\<open>float(s)\<close> on a string, \<open>None\<close> where it raises;
  \<^item> \<open>json_dumps\<close>: \<^verbatim>\<open>json.dumps(data, indent=4)\<close>, \<open>None\<close> where it raises;
  \<^item> \<open>print_ok\<close>, \<open>publish_ok\<close>: whether \<^verbatim>\<open>print\<close> and \<^verbatim>\<open>publish_to_queue\<close> return
    normally;
  \<^item> \<open>basic_ack_ok\<close>, \<open>basic_nack_ok\<close>: whether the channel's acknowledgement calls
    return normally.
  Calls of the logger return normally: Python's logging handles the errors of its
  handlers itself.
\<close>

record world =
  json_loads :: "string \<Rightarrow> loads_result"
  DataFrame_other :: "json \<Rightarrow> pyexn + frame"
  float_of_str :: "string \<Rightarrow> float64 option"
  json_dumps :: "json \<Rightarrow> string option"
  print_ok :: bool
  publish_ok :: bool
  basic_ack_ok :: bool
  basic_nack_ok :: bool


section \<open>The frame of a request (pandas, as processor.py uses it)\<close>

text \<open>
  \<^verbatim>\<open>pd.DataFrame(price_data)\<close> on a non-empty list of dicts: one row per dict, one
  column per key in order of first appearance, and NaN where a row has no value for a
  column.
\<close>

definition column_names :: "(string \<times> json) list list \<Rightarrow> string list" where
  "column_names rows = rev (remdups (rev (concat (map (map fst) rows))))"

definition frame_of_records :: "(string \<times> json) list list \<Rightarrow> frame" where
  "frame_of_records rows =
     \<lparr> n_rows = length rows,
       cols = map (\<lambda>k. (k, map (\<lambda>r. dict_get r k (JFloat NaN)) rows)) (column_names rows) \<rparr>"

definition DataFrame :: "world \<Rightarrow> json \<Rightarrow> pyexn + frame" where
  "DataFrame w price_data =
     (case price_data of
        JArr rows \<Rightarrow>
          if rows \<noteq> [] \<and> list_all is_obj rows then Inr (frame_of_records (map obj_fields rows))
          else DataFrame_other w price_data
      | _ \<Rightarrow> DataFrame_other w price_data)"

text \<open>\<^verbatim>\<open>df.empty\<close>, \<^verbatim>\<open>"close" in df.columns\<close> and \<^verbatim>\<open>df["close"]\<close>.\<close>

definition frame_empty :: "frame \<Rightarrow> bool" where
  "frame_empty df = (n_rows df = 0 \<or> cols df = [])"

definition has_column :: "frame \<Rightarrow> string \<Rightarrow> bool" where
  "has_column df k = (k \<in> set (map fst (cols df)))"

definition column :: "frame \<Rightarrow> string \<Rightarrow> json list" where
  "column df k = (case map_of (cols df) k of None \<Rightarrow> [] | Some c \<Rightarrow> c)"

text \<open>
  \<^verbatim>\<open>.astype(float)\<close>, cell by cell: numbers and booleans convert, None becomes NaN, a
  string converts where \<^verbatim>\<open>float(s)\<close> does, and a list or dict raises. A decoded integer
  is a Python int of any size: it converts unless it rounds to a magnitude beyond the
  largest float64, that is unless its magnitude is at least \<open>2^1024 - 2^970\<close>, in which
  case OverflowError is raised. (Below that bound the value is kept exactly here, where
  numpy rounds it to the nearest float64.) The first cell that raises ends the
  conversion.
\<close>

definition float_overflows :: "int \<Rightarrow> bool" where
  "float_overflows i = (2 ^ 1024 - 2 ^ 970 \<le> \<bar>i\<bar>)"

fun astype_float_cell :: "world \<Rightarrow> json \<Rightarrow> pyexn + float64" where
  "astype_float_cell w JNull = Inr NaN"
| "astype_float_cell w (JBool b) = Inr (Fin (if b then 1 else 0))"
| "astype_float_cell w (JInt i) =
     (if float_overflows i then Inl (OverflowError ''int too large to convert to float'')
      else Inr (Fin (of_int i)))"
| "astype_float_cell w (JFloat x) = Inr x"
| "astype_float_cell w (JStr s) =
     (case float_of_str w s of
        None \<Rightarrow> Inl (ValueError ''could not convert string to float'')
      | Some x \<Rightarrow> Inr x)"
| "astype_float_cell w (JArr xs) = Inl (ValueError ''setting an array element with a sequence.'')"
| "astype_float_cell w (JObj kvs) = Inl (TypeError ''float() argument must be a string or a real number'')"

fun astype_float :: "world \<Rightarrow> json list \<Rightarrow> pyexn + float64 list" where
  "astype_float w [] = Inr []"
| "astype_float w (c # cs) =
     (case astype_float_cell w c of
        Inl e \<Rightarrow> Inl e
      | Inr x \<Rightarrow> (case astype_float w cs of Inl e \<Rightarrow> Inl e | Inr xs \<Rightarrow> Inr (x # xs)))"


section \<open>Peaks (scipy.signal.find\_peaks, as processor.py calls it)\<close>

text \<open>
  \<^verbatim>\<open>find_peaks(x)\<close> with no condition is scipy's \<^verbatim>\<open>_local_maxima_1d(x)\<close>:
  \<^verbatim>\<open>
  i = 1; i_max = x.shape[0] - 1
  while i < i_max:
      if x[i - 1] < x[i]:
          i_ahead = i + 1
          while i_ahead < i_max and x[i_ahead] == x[i]:
              i_ahead += 1
          if x[i_ahead] < x[i]:
              left_edge = i; right_edge = i_ahead - 1
              midpoints.append((left_edge + right_edge) // 2)
              i = i_ahead
      i += 1
  \<close>
  A rising sample opens a candidate; the inner loop walks over the samples equal to it;
  the candidate is a peak when the first different sample is lower, and the index
  reported is the middle of the run of equal samples, rounded down. All reads are in
  range: \<open>1 \<le> i < i_max\<close> and \<open>i_ahead \<le> i_max\<close>.
\<close>

function plateau_end :: "float64 list \<Rightarrow> nat \<Rightarrow> nat \<Rightarrow> nat \<Rightarrow> nat" where
  "plateau_end x i i_max i_ahead =
     (if i_ahead < i_max \<and> f_eq (x ! i_ahead) (x ! i)
      then plateau_end x i i_max (i_ahead + 1)
      else i_ahead)"
  by pat_completeness auto
termination
  by (relation "measure (\<lambda>(x, i, i_max, i_ahead). i_max - i_ahead)") auto

lemma plateau_end_ge: "i_ahead \<le> plateau_end x i i_max i_ahead"
proof (induction x i i_max i_ahead rule: plateau_end.induct)
  case (1 x i i_max i_ahead)
  show ?case
  proof (cases "i_ahead < i_max \<and> f_eq (x ! i_ahead) (x ! i)")
    case True
    with "1.IH" have "i_ahead + 1 \<le> plateau_end x i i_max (i_ahead + 1)" by simp
    moreover have "plateau_end x i i_max i_ahead = plateau_end x i i_max (i_ahead + 1)"
      using True by (subst plateau_end.simps) simp
    ultimately show ?thesis by simp
  next
    case False
    then show ?thesis by (subst plateau_end.simps) simp
  qed
qed

function local_maxima_from :: "float64 list \<Rightarrow> nat \<Rightarrow> nat \<Rightarrow> nat list" where
  "local_maxima_from x i_max i =
     (if i < i_max then
        (if f_lt (x ! (i - 1)) (x ! i) then
           (let i_ahead = plateau_end x i i_max (i + 1) in
            if f_lt (x ! i_ahead) (x ! i)
            then ((i + (i_ahead - 1)) div 2) # local_maxima_from x i_max (i_ahead + 1)
            else local_maxima_from x i_max (i + 1))
         else local_maxima_from x i_max (i + 1))
      else [])"
  by pat_completeness auto
termination
proof (relation "measure (\<lambda>(x, i_max, i). i_max - i)")
  show "wf (measure (\<lambda>(x, i_max, i). i_max - i))" by simp
next
  fix x :: "float64 list" and i_max i i_ahead :: nat
  assume "i < i_max" and a: "i_ahead = plateau_end x i i_max (i + 1)"
  have "i + 1 \<le> i_ahead" unfolding a by (rule plateau_end_ge)
  with \<open>i < i_max\<close> show "((x, i_max, i_ahead + 1), (x, i_max, i)) \<in> measure (\<lambda>(x, i_max, i). i_max - i)"
    by simp
qed auto

declare plateau_end.simps [simp del] local_maxima_from.simps [simp del]

text \<open>For an empty array \<open>i_max\<close> is \<open>-1\<close> in scipy and 0 here: no pass of the loop either way.\<close>

definition find_peaks :: "float64 list \<Rightarrow> nat list" where
  "find_peaks x = local_maxima_from x (length x - 1) 1"


section \<open>The result sink (output\_handler.py, send\_to\_output)\<close>

text \<open>
  \<^verbatim>\<open>
  try:
      formatted_output = json.dumps(data, indent=4)
      logger.info("Sending data to output:\n%s", formatted_output)
      print(formatted_output)
      publish_to_queue([data])
  except Exception as e:
      logger.error("Failed to send output: %s", e)
  \<close>
  The body of the \<^verbatim>\<open>try\<close> gives the exception that ended it, if one did, and the calls
  made up to there; a call that raises was made. The function itself gives the exception
  that leaves it, and the calls.
\<close>

definition send_body :: "world \<Rightarrow> json \<Rightarrow> pyexn option \<times> event list" where
  "send_body w data =
     (case json_dumps w data of
        None \<Rightarrow> (Some (TypeError ''Object is not JSON serializable''), [])
      | Some formatted_output \<Rightarrow>
          if \<not> print_ok w
          then (Some (OtherError ''print failed''), [LogInfo formatted_output, Print formatted_output])
          else if \<not> publish_ok w
          then (Some (OtherError ''publish failed''),
                [LogInfo formatted_output, Print formatted_output, PublishToQueue [data]])
          else (None, [LogInfo formatted_output, Print formatted_output, PublishToQueue [data]]))"

definition send_to_output :: "world \<Rightarrow> json \<Rightarrow> pyexn option \<times> event list" where
  "send_to_output w data =
     (case send_body w data of
        (None, evs) \<Rightarrow> (None, evs)
      | (Some e, evs) \<Rightarrow> (None, evs @ [LogError ''Failed to send output'']))"


section \<open>Pattern analysis (processor.py, analyze\_patterns)\<close>

text \<open>
  Lines 60 to 63 and 67 to 70: with at least two extrema, the last two values are
  compared,
  \<^verbatim>\<open>np.abs(values[-1] - values[-2]) / values[-2] < 0.02\<close>.
\<close>

definition last_two_close :: "float64 list \<Rightarrow> nat list \<Rightarrow> bool" where
  "last_two_close close_prices idx =
     (length idx \<ge> 2 \<and>
      (let vals = map (\<lambda>i. close_prices ! i) idx;
           v1 = vals ! (length vals - 1);
           v2 = vals ! (length vals - 2);
           diff = f_abs (f_sub v1 v2)
       in f_lt (f_div diff v2) (Fin (2 / 100))))"

text \<open>Lines 74 to 84: the last three peaks and the last two valleys.\<close>

definition head_and_shoulders :: "float64 list \<Rightarrow> nat list \<Rightarrow> nat list \<Rightarrow> bool" where
  "head_and_shoulders close_prices peaks valleys =
     (length peaks \<ge> 3 \<and> length valleys \<ge> 2 \<and>
      (let last3_peaks = map (\<lambda>i. close_prices ! i) (drop (length peaks - 3) peaks);
           last2_valleys = map (\<lambda>i. close_prices ! i) (drop (length valleys - 2) valleys)
       in f_lt (last3_peaks ! 0) (last3_peaks ! 1)
          \<and> f_lt (last3_peaks ! 2) (last3_peaks ! 1)
          \<and> f_lt (last2_valleys ! 0) (last3_peaks ! 1)
          \<and> f_lt (last2_valleys ! 1) (last3_peaks ! 1)))"

definition detect_patterns :: "float64 list \<Rightarrow> nat list \<Rightarrow> nat list \<Rightarrow> string list" where
  "detect_patterns close_prices peaks valleys =
     (if last_two_close close_prices peaks then [''Double Top''] else []) @
     (if last_two_close close_prices valleys then [''Double Bottom''] else []) @
     (if head_and_shoulders close_prices peaks valleys then [''Head and Shoulders''] else [])"

definition success_result :: "json \<Rightarrow> string list \<Rightarrow> nat list \<Rightarrow> nat list \<Rightarrow> json" where
  "success_result symbol patterns peaks valleys =
     JObj [(''symbol'', symbol),
           (''analysis_type'', JStr ''chart_patterns''),
           (''analysis_data'',
              JObj [(''patterns'',
                       JArr (map JStr (if patterns = [] then [''No recognizable patterns''] else patterns))),
                    (''peaks'', JArr (map (\<lambda>i. JInt (int i)) peaks)),
                    (''valleys'', JArr (map (\<lambda>i. JInt (int i)) valleys))])]"

definition failure_result :: "json \<Rightarrow> pyexn \<Rightarrow> json" where
  "failure_result symbol e =
     JObj [(''symbol'', symbol),
           (''analysis_type'', JStr ''chart_patterns''),
           (''error'', JStr (str e))]"

text \<open>
  Lines 41 to 50: the close prices of the request, or the exception raised on the way.
\<close>

definition close_prices_of :: "world \<Rightarrow> (string \<times> json) list \<Rightarrow> pyexn + float64 list" where
  "close_prices_of w kvs =
     (let price_data = dict_get kvs ''data'' JNull
      in if \<not> truthy price_data then Inl (ValueError ''Missing 'data' field.'')
         else
           (case DataFrame w price_data of
              Inl e \<Rightarrow> Inl e
            | Inr df \<Rightarrow>
                if frame_empty df \<or> \<not> has_column df ''close''
                then Inl (ValueError ''Data must contain non-empty 'close' prices.'')
                else astype_float w (column df ''close'')))"

text \<open>Lines 51 to 94: the extrema, the pattern checks and the result dictionary.\<close>

definition analysis_of :: "json \<Rightarrow> float64 list \<Rightarrow> json" where
  "analysis_of symbol close_prices =
     (let peaks = find_peaks close_prices;
          valleys = find_peaks (map f_neg close_prices);
          patterns = detect_patterns close_prices peaks valleys
      in success_result symbol patterns peaks valleys)"

text \<open>
  The body of the \<^verbatim>\<open>try\<close> (lines 40 to 97): the exception that ends it or the result
  it returns, with the calls made. \<^verbatim>\<open>data.get\<close> raises AttributeError when the
  decoded message is not a dict. The result is handed to \<^verbatim>\<open>send_to_output\<close> on line
  96, after the log line of line 57.
\<close>

definition analyze_body :: "world \<Rightarrow> json \<Rightarrow> (pyexn + json) \<times> event list" where
  "analyze_body w data =
     (case data of
        JObj kvs \<Rightarrow>
          (let symbol = dict_get kvs ''symbol'' (JStr ''UNKNOWN'')
           in case close_prices_of w kvs of
                Inl e \<Rightarrow> (Inl e, [])
              | Inr close_prices \<Rightarrow>
                  (let result = analysis_of symbol close_prices
                   in case send_to_output w result of
                        (None, evs) \<Rightarrow> (Inr result, LogInfo ''Found peaks and valleys'' # evs)
                      | (Some e, evs) \<Rightarrow> (Inl e, LogInfo ''Found peaks and valleys'' # evs)))
      | _ \<Rightarrow> (Inl (AttributeError ''object has no attribute get''), []))"

text \<open>
  The handler (lines 99 to 105) evaluates \<^verbatim>\<open>data.get("symbol", "UNKNOWN")\<close> again: on a
  dict it logs and returns the failure result, on anything else the AttributeError
  leaves the function.
\<close>

definition analyze_patterns :: "world \<Rightarrow> json \<Rightarrow> (pyexn + json) \<times> event list" where
  "analyze_patterns w data =
     (case analyze_body w data of
        (Inr result, evs) \<Rightarrow> (Inr result, evs)
      | (Inl e, evs) \<Rightarrow>
          (case data of
             JObj kvs \<Rightarrow>
               (Inr (failure_result (dict_get kvs ''symbol'' (JStr ''UNKNOWN'')) e),
                evs @ [LogException ''Pattern analysis failed''])
           | _ \<Rightarrow> (Inl (AttributeError ''object has no attribute get''), evs)))"


section \<open>The RabbitMQ delivery callback (queue\_handler.py, callback)\<close>

text \<open>
  \<^verbatim>\<open>
  try:
      message = json.loads(body)
      logger.info("Received message: %s", message)
      analyze_patterns(message)
      ch.basic_ack(delivery_tag=method.delivery_tag)
  except json.JSONDecodeError:
      logger.error("Invalid JSON: %s", body)
      ch.basic_nack(delivery_tag=method.delivery_tag, requeue=False)
  except Exception as e:
      logger.error("Error processing message: %s", e)
      ch.basic_nack(delivery_tag=method.delivery_tag, requeue=True)
  \<close>
  The result of \<^verbatim>\<open>analyze_patterns\<close> is not looked at. An exception raised by a
  \<^verbatim>\<open>basic_nack\<close> in a handler leaves the callback.
\<close>

definition nack :: "world \<Rightarrow> string \<Rightarrow> bool \<Rightarrow> event list \<Rightarrow> pyexn option \<times> event list" where
  "nack w msg requeue evs =
     (if basic_nack_ok w then None else Some (OtherError ''basic_nack failed''),
      evs @ [LogError msg, BasicNack requeue])"

definition callback :: "world \<Rightarrow> string \<Rightarrow> pyexn option \<times> event list" where
  "callback w body =
     (case json_loads w body of
        JSONDecodeError \<Rightarrow> nack w ''Invalid JSON'' False []
      | LoadsRaised e \<Rightarrow> nack w ''Error processing message'' True []
      | Loaded message \<Rightarrow>
          (case analyze_patterns w message of
             (Inl e, evs) \<Rightarrow> nack w ''Error processing message'' True (LogInfo ''Received message'' # evs)
           | (Inr result, evs) \<Rightarrow>
               if basic_ack_ok w then (None, LogInfo ''Received message'' # evs @ [BasicAck])
               else nack w ''Error processing message'' True
                      (LogInfo ''Received message'' # evs @ [BasicAck])))"


section \<open>Vocabulary of the properties\<close>

text \<open>
  A world in which every library call and every service works; \<^verbatim>\<open>json.loads\<close> and the
  DataFrame constructor are replaced where an example needs another answer.
\<close>

definition fair_world :: world where
  "fair_world =
     \<lparr> json_loads = (\<lambda>body. JSONDecodeError),
       DataFrame_other = (\<lambda>j. Inl (ValueError ''DataFrame constructor not properly called!'')),
       float_of_str = (\<lambda>s. None),
       json_dumps = (\<lambda>j. Some ''rendered''),
       print_ok = True, publish_ok = True, basic_ack_ok = True, basic_nack_ok = True \<rparr>"

text \<open>The acknowledgement calls among the calls made.\<close>

fun is_ack :: "event \<Rightarrow> bool" where
  "is_ack BasicAck = True"
| "is_ack (BasicNack requeue) = True"
| "is_ack ev = False"

text \<open>
  The relative-difference check as the specification words it, on real numbers:
  \<open>|a - b| / |reference| < 0.02\<close>, with \<open>b\<close> the reference.
\<close>

definition spec_relative_match :: "real \<Rightarrow> real \<Rightarrow> bool" where
  "spec_relative_match a b = (\<bar>a - b\<bar> / \<bar>b\<bar> < 2 / 100)"

text \<open>
  A row of the series carries a close value; the cell of the close column that the frame
  has for a row (NaN where the row has none); a cell converts to float.
\<close>

definition has_close :: "json \<Rightarrow> bool" where
  "has_close row = (map_of (obj_fields row) ''close'' \<noteq> None)"

definition close_cell :: "json \<Rightarrow> json" where
  "close_cell row = dict_get (obj_fields row) ''close'' (JFloat NaN)"

definition coercible :: "world \<Rightarrow> json \<Rightarrow> bool" where
  "coercible w c = (case astype_float_cell w c of Inl e \<Rightarrow> False | Inr x \<Rightarrow> True)"

text \<open>
  The extrema as the specification words them: the interior indices whose value is
  strictly above (below) both neighbours. And a series in which no two adjacent values
  are equal.
\<close>

definition strict_peaks :: "float64 list \<Rightarrow> nat list" where
  "strict_peaks x =
     filter (\<lambda>i. f_lt (x ! (i - 1)) (x ! i) \<and> f_lt (x ! (i + 1)) (x ! i)) [1..<length x - 1]"

definition strict_valleys :: "float64 list \<Rightarrow> nat list" where
  "strict_valleys x =
     filter (\<lambda>i. f_lt (x ! i) (x ! (i - 1)) \<and> f_lt (x ! i) (x ! (i + 1))) [1..<length x - 1]"

fun no_flat :: "float64 list \<Rightarrow> bool" where
  "no_flat (a # b # xs) = (\<not> f_eq a b \<and> no_flat (b # xs))"
| "no_flat xs = True"

text \<open>A request whose series is the given list of integer close prices.\<close>

definition series :: "int list \<Rightarrow> json" where
  "series xs = JArr (map (\<lambda>x. JObj [(''close'', JInt x)]) xs)"


section \<open>RabbitMQ connection with retry (queue\_handler.py, \_connect\_to\_rabbitmq)\<close>

text \<open>
  One pass of the loop body calls \<^verbatim>\<open>pika.BlockingConnection(params)\<close>. The broker
  client is outside the repository, so what the call does is an input of the model: it
  raises (\<open>Refused\<close>), it returns a connection whose \<^verbatim>\<open>is_open\<close> is false
  (\<open>NotOpen\<close>), or it returns an open connection (\<open>Opened\<close>). A run of the function
  is driven by the list of outcomes the broker will give, in order.
\<close>

datatype attempt = Refused | NotOpen | Opened

datatype connect_outcome = Connection | ConnectionError

text \<open>
  \<^verbatim>\<open>
  retries = 5
  while retries > 0:
      try:
          conn = pika.BlockingConnection(params)
          if conn.is_open:
              return conn
      except Exception as e:
          retries -= 1
          time.sleep(5)
  raise ConnectionError("Could not connect to RabbitMQ after retries")
  \<close>
  The loop state is \<open>retries\<close>; the model also counts the attempts made and the seconds
  slept. An open connection is returned; an exception costs one retry and five seconds; a
  connection that is not open goes round the loop again with neither. The result is
  \<open>None\<close> when the list of outcomes ends while the loop would still go on.
\<close>

fun connect_loop :: "int \<Rightarrow> nat \<Rightarrow> nat \<Rightarrow> attempt list \<Rightarrow> (connect_outcome \<times> nat \<times> nat) option" where
  "connect_loop retries made slept [] =
     (if retries > 0 then None else Some (ConnectionError, made, slept))"
| "connect_loop retries made slept (a # rest) =
     (if retries > 0 then
        (case a of
           Opened \<Rightarrow> Some (Connection, Suc made, slept)
         | NotOpen \<Rightarrow> connect_loop retries (Suc made) slept rest
         | Refused \<Rightarrow> connect_loop (retries - 1) (Suc made) (slept + 5) rest)
      else Some (ConnectionError, made, slept))"

definition connect_to_rabbitmq :: "attempt list \<Rightarrow> (connect_outcome \<times> nat \<times> nat) option" where
  "connect_to_rabbitmq script = connect_loop 5 0 0 script"


section \<open>Properties of the connection retry\<close>

lemma connect_loop_prefix:
  "Opened \<notin> set pre \<Longrightarrow> int (count_list pre Refused) < retries \<Longrightarrow>
   connect_loop retries made slept (pre @ rest) =
   connect_loop (retries - int (count_list pre Refused)) (made + length pre)
     (slept + 5 * count_list pre Refused) rest"
proof (induction pre arbitrary: retries made slept)
  case Nil
  then show ?case by simp
next
  case (Cons a pre)
  from Cons.prems have pos: "retries > 0" by (simp split: if_splits)
  show ?case
  proof (cases a)
    case Refused
    with Cons.prems have "Opened \<notin> set pre" and "int (count_list pre Refused) < retries - 1"
      by simp_all
    from Cons.IH [OF this] Refused pos show ?thesis by (simp add: algebra_simps)
  next
    case NotOpen
    with Cons.prems have "Opened \<notin> set pre" and "int (count_list pre Refused) < retries"
      by simp_all
    from Cons.IH [OF this] NotOpen pos show ?thesis by simp
  next
    case Opened
    with Cons.prems show ?thesis by simp
  qed
qed

text \<open>
  C2, as the code has it, for every run. Let \<open>pre\<close> be the attempts made before some
  point, none of which returned an open connection. The counter is never reset, so what
  matters is how many of them raised, in total and not in a row; an attempt that returns
  a connection that is not open is made again at once and costs nothing.
  \<^item> When fewer than five attempts of \<open>pre\<close> raised and the next attempt returns an
    open connection, that connection is returned, after five seconds of sleep for each
    attempt that raised.
  \<^item> When four attempts of \<open>pre\<close> raised and the next attempt raises too, the loop ends
    after that attempt and its sleep: ConnectionError is raised, whatever the broker
    would have answered next.
  \<^item> While fewer than five attempts have raised and none has returned an open
    connection, the loop goes on: it has not returned.
\<close>

theorem connect_retry_bound:
  "(Opened \<notin> set pre \<and> count_list pre Refused < 5 \<longrightarrow>
      connect_to_rabbitmq (pre @ Opened # rest) =
        Some (Connection, length pre + 1, 5 * count_list pre Refused))
   \<and> (Opened \<notin> set pre \<and> count_list pre Refused = 4 \<longrightarrow>
      connect_to_rabbitmq (pre @ Refused # rest) = Some (ConnectionError, length pre + 1, 25))
   \<and> (Opened \<notin> set pre \<and> count_list pre Refused < 5 \<longrightarrow>
      connect_to_rabbitmq pre = None)"
proof (intro conjI impI)
  assume a: "Opened \<notin> set pre \<and> count_list pre Refused < 5"
  then have n: "Opened \<notin> set pre" and c: "int (count_list pre Refused) < 5" by simp_all
  show "connect_to_rabbitmq (pre @ Opened # rest) =
        Some (Connection, length pre + 1, 5 * count_list pre Refused)"
    unfolding connect_to_rabbitmq_def connect_loop_prefix [OF n c] using c by simp
  have "connect_to_rabbitmq (pre @ []) = None"
    unfolding connect_to_rabbitmq_def connect_loop_prefix [OF n c] using c by simp
  then show "connect_to_rabbitmq pre = None" by simp
next
  assume a: "Opened \<notin> set pre \<and> count_list pre Refused = 4"
  then have n: "Opened \<notin> set pre" and c: "int (count_list pre Refused) < 5"
    and e: "count_list pre Refused = 4" by simp_all
  show "connect_to_rabbitmq (pre @ Refused # rest) = Some (ConnectionError, length pre + 1, 25)"
    unfolding connect_to_rabbitmq_def connect_loop_prefix [OF n c] using e
    by (cases rest) simp_all
qed

theorem connect_retry_bound_witness:
  "connect_to_rabbitmq [Refused, NotOpen, Refused, Opened] = Some (Connection, 4, 10)
   \<and> connect_to_rabbitmq [Refused, Refused, NotOpen, Refused, Refused, NotOpen, Refused, Opened] =
       Some (ConnectionError, 7, 25)
   \<and> connect_to_rabbitmq [NotOpen, NotOpen] = None"
  using connect_retry_bound [of "[Refused, NotOpen, Refused]" "[]"]
        connect_retry_bound [of "[Refused, Refused, NotOpen, Refused, Refused, NotOpen]" "[Opened]"]
        connect_retry_bound [of "[NotOpen, NotOpen]" "[]"]
  by simp

text \<open>
  The specification has the sixth consecutive failed attempt raise the error. With six refusals
  ready, the error comes after five attempts; and when the broker would accept the sixth
  attempt, that attempt is not made and the error is raised all the same.
\<close>

theorem connect_sixth_attempt_counterexample:
  "connect_to_rabbitmq [Refused, Refused, Refused, Refused, Refused, Refused] =
     Some (ConnectionError, 5, 25) \<and>
   connect_to_rabbitmq [Refused, Refused, Refused, Refused, Refused, Opened] \<noteq>
     Some (Connection, 6, 25)"
  by (simp add: connect_to_rabbitmq_def)

section \<open>Properties of the result sink\<close>

lemma send_to_output_returns: "fst (send_to_output w data) = None"
  by (simp add: send_to_output_def split: prod.splits option.splits)

lemma send_to_output_no_ack: "filter is_ack (snd (send_to_output w data)) = []"
  by (simp add: send_to_output_def send_body_def split: prod.splits option.splits)

text \<open>
  C9, as the code has it. No failure of the sink reaches its caller. Its steps are not
  independent: they run in sequence inside one \<^verbatim>\<open>try\<close>, so the result is logged and
  printed exactly when it could be rendered, it is published exactly when it could be
  rendered and printing did not fail, and the failure of any step is logged.
\<close>

theorem send_to_output_in_sequence:
  "fst (send_to_output w data) = None
   \<and> (LogInfo s \<in> set (snd (send_to_output w data))) = (json_dumps w data = Some s)
   \<and> (Print s \<in> set (snd (send_to_output w data))) = (json_dumps w data = Some s)
   \<and> (PublishToQueue [data] \<in> set (snd (send_to_output w data))) =
       (json_dumps w data \<noteq> None \<and> print_ok w)
   \<and> (LogError ''Failed to send output'' \<in> set (snd (send_to_output w data))) =
       (json_dumps w data = None \<or> \<not> print_ok w \<or> \<not> publish_ok w)"
  by (auto simp: send_to_output_def send_body_def split: option.splits)

theorem send_to_output_in_sequence_witness:
  "snd (send_to_output (fair_world\<lparr>publish_ok := False\<rparr>) JNull) =
     [LogInfo ''rendered'', Print ''rendered'', PublishToQueue [JNull],
      LogError ''Failed to send output'']"
  using send_to_output_in_sequence [of "fair_world\<lparr>publish_ok := False\<rparr>" JNull "''rendered''"]
  by (simp add: send_to_output_def send_body_def fair_world_def)

text \<open>
  The specification has each side effect attempted whatever happens to the others. When
  \<^verbatim>\<open>print\<close> raises (a closed standard output), the batch is never submitted.
\<close>

theorem print_failure_skips_publish_counterexample:
  "snd (send_to_output (fair_world\<lparr>print_ok := False\<rparr>) JNull) =
     [LogInfo ''rendered'', Print ''rendered'', LogError ''Failed to send output'']"
  by (simp add: send_to_output_def send_body_def fair_world_def)


section \<open>Properties of analyze\_patterns at its boundary\<close>

lemma analyze_body_dict:
  "analyze_body w (JObj kvs) =
     (case close_prices_of w kvs of
        Inl e \<Rightarrow> (Inl e, [])
      | Inr close_prices \<Rightarrow>
          (Inr (analysis_of (dict_get kvs ''symbol'' (JStr ''UNKNOWN'')) close_prices),
           LogInfo ''Found peaks and valleys'' #
           snd (send_to_output w
                  (analysis_of (dict_get kvs ''symbol'' (JStr ''UNKNOWN'')) close_prices))))"
proof (cases "close_prices_of w kvs")
  case (Inl e)
  then show ?thesis by (simp add: analyze_body_def)
next
  case (Inr cp)
  obtain evs where
    "send_to_output w (analysis_of (dict_get kvs ''symbol'' (JStr ''UNKNOWN'')) cp) = (None, evs)"
    using send_to_output_returns by (metis prod.collapse)
  with Inr show ?thesis by (simp add: analyze_body_def)
qed

lemma analyze_patterns_dict:
  "analyze_patterns w (JObj kvs) =
     (case close_prices_of w kvs of
        Inl e \<Rightarrow>
          (Inr (failure_result (dict_get kvs ''symbol'' (JStr ''UNKNOWN'')) e),
           [LogException ''Pattern analysis failed''])
      | Inr close_prices \<Rightarrow>
          (Inr (analysis_of (dict_get kvs ''symbol'' (JStr ''UNKNOWN'')) close_prices),
           LogInfo ''Found peaks and valleys'' #
           snd (send_to_output w
                  (analysis_of (dict_get kvs ''symbol'' (JStr ''UNKNOWN'')) close_prices))))"
  by (simp add: analyze_patterns_def analyze_body_dict split: sum.splits)

lemma analyze_patterns_not_dict:
  "\<not> is_obj data \<Longrightarrow>
   analyze_patterns w data = (Inl (AttributeError ''object has no attribute get''), [])"
  by (cases data) (simp_all add: analyze_patterns_def analyze_body_def)

lemma analyze_patterns_no_ack: "filter is_ack (snd (analyze_patterns w data)) = []"
proof (cases data)
  case (JObj kvs)
  then show ?thesis
    by (simp add: analyze_patterns_dict send_to_output_no_ack split: sum.splits)
qed (simp_all add: analyze_patterns_not_dict)

text \<open>
  C8, as the code has it. On every dict, in every world, \<^verbatim>\<open>analyze_patterns\<close> returns a
  dict that carries the symbol of the request (or UNKNOWN), the analysis type
  chart\_patterns and exactly one of the keys analysis\_data and error; it carries error
  exactly when the body of the \<^verbatim>\<open>try\<close> raised.
\<close>

theorem analyze_patterns_returns_on_dicts:
  "\<exists>r. fst (analyze_patterns w (JObj kvs)) = Inr (JObj r)
      \<and> map_of r ''symbol'' = Some (dict_get kvs ''symbol'' (JStr ''UNKNOWN''))
      \<and> map_of r ''analysis_type'' = Some (JStr ''chart_patterns'')
      \<and> (map_of r ''analysis_data'' = None) = (map_of r ''error'' \<noteq> None)
      \<and> (map_of r ''error'' \<noteq> None) = (\<exists>e. fst (analyze_body w (JObj kvs)) = Inl e)"
  by (cases "close_prices_of w kvs")
     (simp_all add: analyze_patterns_dict analyze_body_dict analysis_of_def Let_def
        success_result_def failure_result_def)

theorem analyze_patterns_returns_on_dicts_witness:
  "fst (analyze_patterns fair_world (JObj [(''symbol'', JStr ''ACME'')])) =
     Inr (JObj [(''symbol'', JStr ''ACME''), (''analysis_type'', JStr ''chart_patterns''),
                (''error'', JStr ''Missing 'data' field.'')])"
  using analyze_patterns_returns_on_dicts [of fair_world "[(''symbol'', JStr ''ACME'')]"]
  by (simp add: analyze_patterns_dict close_prices_of_def dict_get_def failure_result_def)

text \<open>
  The specification speaks of every input. A decoded message that is not a dict (the JSON text
  \<^verbatim>\<open>[]\<close>) makes \<^verbatim>\<open>data.get\<close> raise inside the \<^verbatim>\<open>try\<close> and again inside the handler,
  and the second AttributeError leaves the function.
\<close>

theorem analyze_patterns_raises_counterexample:
  "fst (analyze_patterns fair_world (JArr [])) =
     Inl (AttributeError ''object has no attribute get'')"
  by (simp add: analyze_patterns_not_dict)

text \<open>
  C6, as the code has it. A success result is handed to the sink, right after the log
  line about the extrema; where rendering, printing and publishing work, the sink logs
  it, prints it and publishes it as a batch of one. A failure result is built in the
  handler, which logs the exception and returns: the sink is not called for it.
\<close>

theorem sink_reached_on_success_only:
  "(fst (analyze_patterns w (JObj kvs)) = Inr r \<and> map_of (obj_fields r) ''analysis_data'' \<noteq> None \<longrightarrow>
      snd (analyze_patterns w (JObj kvs)) =
        LogInfo ''Found peaks and valleys'' # snd (send_to_output w r))
   \<and> (fst (analyze_patterns w (JObj kvs)) = Inr r \<and> map_of (obj_fields r) ''error'' \<noteq> None \<longrightarrow>
      snd (analyze_patterns w (JObj kvs)) = [LogException ''Pattern analysis failed''])
   \<and> (json_dumps w r = Some s \<and> print_ok w \<and> publish_ok w \<longrightarrow>
      snd (send_to_output w r) = [LogInfo s, Print s, PublishToQueue [r]])"
  by (cases "close_prices_of w kvs")
     (auto simp: analyze_patterns_dict analysis_of_def Let_def success_result_def
        failure_result_def send_to_output_def send_body_def)

theorem sink_reached_on_success_only_witness:
  "fst (analyze_patterns fair_world (JObj [(''data'', series [1, 3, 1])])) =
     Inr (JObj [(''symbol'', JStr ''UNKNOWN''), (''analysis_type'', JStr ''chart_patterns''),
         (''analysis_data'', JObj [(''patterns'', JArr [JStr ''No recognizable patterns'']),
             (''peaks'', JArr [JInt 1]), (''valleys'', JArr [])])])
   \<and> snd (analyze_patterns fair_world (JObj [(''data'', series [1, 3, 1])])) =
     [LogInfo ''Found peaks and valleys'', LogInfo ''rendered'', Print ''rendered'',
      PublishToQueue [JObj [(''symbol'', JStr ''UNKNOWN''), (''analysis_type'', JStr ''chart_patterns''),
         (''analysis_data'', JObj [(''patterns'', JArr [JStr ''No recognizable patterns'']),
             (''peaks'', JArr [JInt 1]), (''valleys'', JArr [])])]]]"
proof -
  let ?r = "JObj [(''symbol'', JStr ''UNKNOWN''), (''analysis_type'', JStr ''chart_patterns''),
         (''analysis_data'', JObj [(''patterns'', JArr [JStr ''No recognizable patterns'']),
             (''peaks'', JArr [JInt 1]), (''valleys'', JArr [])])]"
  have r: "fst (analyze_patterns fair_world (JObj [(''data'', series [1, 3, 1])])) = Inr ?r"
    by code_simp
  have k: "map_of (obj_fields ?r) ''analysis_data'' \<noteq> None" by simp
  have s: "json_dumps fair_world ?r = Some ''rendered'' \<and> print_ok fair_world \<and> publish_ok fair_world"
    by (simp add: fair_world_def)
  from sink_reached_on_success_only [of fair_world "[(''data'', series [1, 3, 1])]" ?r "''rendered''"]
    r k s
  have "snd (analyze_patterns fair_world (JObj [(''data'', series [1, 3, 1])])) =
          LogInfo ''Found peaks and valleys'' # [LogInfo ''rendered'', Print ''rendered'', PublishToQueue [?r]]"
    by metis
  with r show ?thesis by simp
qed

text \<open>
  The specification has failure results reach the sink as well. In a world where every service
  works, a request without data gives a failure result and the only call made is the
  log of the exception: nothing is printed, nothing is published.
\<close>

theorem failure_not_sent_counterexample:
  "analyze_patterns fair_world (JObj [(''symbol'', JStr ''ACME'')]) =
     (Inr (JObj [(''symbol'', JStr ''ACME''), (''analysis_type'', JStr ''chart_patterns''),
                 (''error'', JStr ''Missing 'data' field.'')]),
      [LogException ''Pattern analysis failed''])"
  by (simp add: analyze_patterns_dict close_prices_of_def dict_get_def failure_result_def)


section \<open>Properties of the delivery callback\<close>

text \<open>
  C10, as the code has it. When \<^verbatim>\<open>basic_ack\<close> itself does not raise, the callback makes
  exactly one acknowledgement call: nack without requeue when \<^verbatim>\<open>json.loads\<close> raises
  JSONDecodeError; nack with requeue when \<^verbatim>\<open>json.loads\<close> raises anything else or
  returns a value that is not a dict; ack when it returns a dict, whatever the dict
  holds.
\<close>

theorem callback_acknowledgement:
  "basic_ack_ok w \<Longrightarrow>
   filter is_ack (snd (callback w body)) =
     (case json_loads w body of
        JSONDecodeError \<Rightarrow> [BasicNack False]
      | LoadsRaised e \<Rightarrow> [BasicNack True]
      | Loaded message \<Rightarrow> if is_obj message then [BasicAck] else [BasicNack True])"
proof (cases "json_loads w body")
  case (Loaded message)
  assume ok: "basic_ack_ok w"
  show ?thesis
  proof (cases "is_obj message")
    case True
    then obtain kvs where m: "message = JObj kvs" by (cases message) simp_all
    obtain r evs where a: "analyze_patterns w (JObj kvs) = (Inr r, evs)"
      by (cases "close_prices_of w kvs") (simp_all add: analyze_patterns_dict)
    have "filter is_ack evs = []"
      using analyze_patterns_no_ack [of w "JObj kvs"] a by simp
    with Loaded m a ok show ?thesis by (simp add: callback_def)
  next
    case False
    with Loaded show ?thesis
      by (simp add: callback_def analyze_patterns_not_dict nack_def)
  qed
qed (simp_all add: callback_def nack_def)

theorem callback_acknowledgement_witness:
  "basic_ack_ok fair_world \<and>
   filter is_ack (snd (callback fair_world ''{'')) = [BasicNack False] \<and>
   filter is_ack (snd (callback (fair_world\<lparr>json_loads := (\<lambda>body. Loaded (JObj []))\<rparr>) ''{}'')) =
     [BasicAck]"
  using callback_acknowledgement [of fair_world "''{''"]
        callback_acknowledgement [of "fair_world\<lparr>json_loads := (\<lambda>body. Loaded (JObj []))\<rparr>" "''{}''"]
  by (simp add: fair_world_def)

text \<open>
  The specification has the nack with requeue unreachable. The body \<^verbatim>\<open>[]\<close> is valid JSON and
  decodes to a list: \<^verbatim>\<open>analyze_patterns\<close> raises, and the message is requeued.
\<close>

theorem callback_requeue_counterexample:
  "callback (fair_world\<lparr>json_loads := (\<lambda>body. Loaded (JArr []))\<rparr>) ''[]'' =
     (None, [LogInfo ''Received message'', LogError ''Error processing message'', BasicNack True])"
  by (simp add: callback_def analyze_patterns_not_dict nack_def fair_world_def)

text \<open>
  C1, as the code has it. When the body decodes to a dict whose data is absent or empty,
  \<^verbatim>\<open>analyze_patterns\<close> returns the failure result with the error "Missing 'data' field.";
  the callback does not look at the result and calls \<^verbatim>\<open>basic_ack\<close>. No nack is issued
  unless \<^verbatim>\<open>basic_ack\<close> itself raises, and then it is the nack with requeue.
\<close>

theorem missing_data_is_acked:
  "json_loads w body = Loaded (JObj kvs) \<Longrightarrow> \<not> truthy (dict_get kvs ''data'' JNull) \<Longrightarrow>
   fst (analyze_patterns w (JObj kvs)) =
     Inr (JObj [(''symbol'', dict_get kvs ''symbol'' (JStr ''UNKNOWN'')),
                (''analysis_type'', JStr ''chart_patterns''),
                (''error'', JStr ''Missing 'data' field.'')])
   \<and> snd (callback w body) =
       LogInfo ''Received message'' # LogException ''Pattern analysis failed'' # BasicAck #
       (if basic_ack_ok w then [] else [LogError ''Error processing message'', BasicNack True])"
  by (simp add: callback_def analyze_patterns_dict close_prices_of_def failure_result_def nack_def)

theorem missing_data_is_acked_witness:
  "snd (callback (fair_world\<lparr>json_loads := (\<lambda>body. Loaded (JObj [(''data'', JArr [])]))\<rparr>) ''{}'') =
     [LogInfo ''Received message'', LogException ''Pattern analysis failed'', BasicAck]"
  using missing_data_is_acked
    [of "fair_world\<lparr>json_loads := (\<lambda>body. Loaded (JObj [(''data'', JArr [])]))\<rparr>"
        "''{}''" "[(''data'', JArr [])]"]
  by (simp add: fair_world_def dict_get_def)

text \<open>
  The specification has such a message take the nack without requeue. A message with a symbol
  and no data is acknowledged with ack.
\<close>

theorem missing_data_nack_counterexample:
  "callback (fair_world\<lparr>json_loads := (\<lambda>body. Loaded (JObj [(''symbol'', JStr ''ACME'')]))\<rparr>) ''{}'' =
     (None, [LogInfo ''Received message'', LogException ''Pattern analysis failed'', BasicAck])"
  by (simp add: callback_def analyze_patterns_dict close_prices_of_def dict_get_def fair_world_def)


section \<open>Properties of the Double Top and Double Bottom checks\<close>

lemma label_double_top:
  "(''Double Top'' \<in> set (detect_patterns xs peaks valleys)) = last_two_close xs peaks"
  by (simp add: detect_patterns_def)

lemma label_double_bottom:
  "(''Double Bottom'' \<in> set (detect_patterns xs peaks valleys)) = last_two_close xs valleys"
  by (simp add: detect_patterns_def)

lemma last_two_close_values:
  "2 \<le> length idx \<Longrightarrow>
   last_two_close xs idx =
     f_lt (f_div (f_abs (f_sub (xs ! (idx ! (length idx - 1))) (xs ! (idx ! (length idx - 2)))))
                 (xs ! (idx ! (length idx - 2))))
          (Fin (2 / 100))"
  by (simp add: last_two_close_def Let_def)

lemma rel_check_finite:
  "f_lt (f_div (f_abs (f_sub (Fin a) (Fin b))) (Fin b)) (Fin (2 / 100)) =
     (if 0 < b then spec_relative_match a b else b < 0)"
proof -
  consider "b = 0" | "0 < b" | "b < 0" by linarith
  then show ?thesis
  proof cases
    case 1
    then show ?thesis by (simp add: f_div_def inf_of_def)
  next
    case 2
    then show ?thesis
      by (simp add: f_div_def zero_of_def spec_relative_match_def)
  next
    case 3
    have "\<bar>a - b\<bar> / b \<le> 0" using 3 by (simp add: divide_nonneg_neg)
    then have "\<bar>a - b\<bar> / b < 2 / 100" by linarith
    with 3 show ?thesis
      by (simp add: f_div_def zero_of_def)
  qed
qed

lemma rel_check_zero_reference:
  "f_lt (f_div (f_abs (f_sub v (Fin 0))) (Fin 0)) (Fin (2 / 100)) = False"
  by (cases v) (simp_all add: f_div_def inf_of_def)

lemma last_two_close_finite:
  assumes "2 \<le> length idx"
    and "xs ! (idx ! (length idx - 1)) = Fin a"
    and "xs ! (idx ! (length idx - 2)) = Fin b"
  shows "last_two_close xs idx = (if 0 < b then spec_relative_match a b else b < 0)"
proof -
  have "last_two_close xs idx =
          f_lt (f_div (f_abs (f_sub (Fin a) (Fin b))) (Fin b)) (Fin (2 / 100))"
    unfolding last_two_close_values [OF assms(1)] assms(2) assms(3) ..
  also have "\<dots> = (if 0 < b then spec_relative_match a b else b < 0)"
    by (rule rel_check_finite)
  finally show ?thesis .
qed

lemma last_two_close_zero_reference:
  assumes "2 \<le> length idx" and "xs ! (idx ! (length idx - 2)) = Fin 0"
  shows "\<not> last_two_close xs idx"
proof -
  have "last_two_close xs idx =
          f_lt (f_div (f_abs (f_sub (xs ! (idx ! (length idx - 1))) (Fin 0))) (Fin 0)) (Fin (2 / 100))"
    unfolding last_two_close_values [OF assms(1)] assms(2) ..
  also have "\<dots> = False"
    by (rule rel_check_zero_reference)
  finally show ?thesis by simp
qed

text \<open>
  C3, as the code has it. With at least two peaks whose last two values are finite, the
  Double Top label is in the result exactly when \<open>|last - reference| / reference < 0.02\<close>
  in float64, the reference being the second-most-recent peak value, with its sign: for a
  positive reference this is the check of the specification, and for a negative
  reference the quotient is never positive and every pair matches. The same holds for
  Double Bottom and the last two valleys.
\<close>

theorem double_match_signed_reference:
  "(2 \<le> length peaks \<and> xs ! (peaks ! (length peaks - 1)) = Fin a
      \<and> xs ! (peaks ! (length peaks - 2)) = Fin b \<longrightarrow>
      (''Double Top'' \<in> set (detect_patterns xs peaks valleys)) =
        (if 0 < b then spec_relative_match a b else b < 0))
   \<and> (2 \<le> length valleys \<and> xs ! (valleys ! (length valleys - 1)) = Fin c
      \<and> xs ! (valleys ! (length valleys - 2)) = Fin d \<longrightarrow>
      (''Double Bottom'' \<in> set (detect_patterns xs peaks valleys)) =
        (if 0 < d then spec_relative_match c d else d < 0))"
  unfolding label_double_top label_double_bottom
  using last_two_close_finite [of peaks xs a b] last_two_close_finite [of valleys xs c d]
  by blast

theorem double_match_signed_reference_witness:
  "''Double Top'' \<in> set (detect_patterns [Fin 100, Fin 103, Fin 100, Fin 104, Fin 100] [1, 3] [2])
   \<and> spec_relative_match 104 103
   \<and> ''Double Top'' \<in> set (detect_patterns [Fin (-300), Fin (-100), Fin (-200), Fin (-50), Fin (-300)] [1, 3] [2])
   \<and> ''Double Bottom'' \<notin> set (detect_patterns [Fin 9, Fin 1, Fin 9, Fin 2, Fin 9] [2] [1, 3])"
  using double_match_signed_reference [of "[1, 3]" "[Fin 100, Fin 103, Fin 100, Fin 104, Fin 100]" 104 103 "[2]" 0 0]
        double_match_signed_reference [of "[1, 3]" "[Fin (-300), Fin (-100), Fin (-200), Fin (-50), Fin (-300)]" "-50" "-100" "[2]" 0 0]
        double_match_signed_reference [of  "[2]" "[Fin 9, Fin 1, Fin 9, Fin 2, Fin 9]" 0 0 "[1, 3]" 2 1]
  by (simp add: spec_relative_match_def)

text \<open>
  The specification divides by the absolute value of the reference. For the peaks -100 and -50
  the code's quotient is -0.5 and Double Top is reported; that of the specification is 0.5.
\<close>

theorem negative_reference_counterexample:
  "fst (analyze_patterns fair_world (JObj [(''data'', series [-300, -100, -200, -50, -300])])) =
     Inr (JObj [(''symbol'', JStr ''UNKNOWN''), (''analysis_type'', JStr ''chart_patterns''),
         (''analysis_data'', JObj [(''patterns'', JArr [JStr ''Double Top'']),
             (''peaks'', JArr [JInt 1, JInt 3]), (''valleys'', JArr [JInt 2])])])
   \<and> \<not> spec_relative_match (-50) (-100)"
proof
  show "fst (analyze_patterns fair_world (JObj [(''data'', series [-300, -100, -200, -50, -300])])) =
     Inr (JObj [(''symbol'', JStr ''UNKNOWN''), (''analysis_type'', JStr ''chart_patterns''),
         (''analysis_data'', JObj [(''patterns'', JArr [JStr ''Double Top'']),
             (''peaks'', JArr [JInt 1, JInt 3]), (''valleys'', JArr [JInt 2])])])"
    by code_simp
  show "\<not> spec_relative_match (-50) (-100)"
    by (simp add: spec_relative_match_def)
qed


text \<open>
  C4, as the code has it. There is no guard. When the reference value is positive zero
  the division is carried out in float64, where it raises nothing and gives an infinity
  or NaN, and the comparison with 0.02 is false: the label is not reported.
\<close>

theorem zero_reference_never_matches:
  "(2 \<le> length peaks \<and> xs ! (peaks ! (length peaks - 2)) = Fin 0 \<longrightarrow>
      ''Double Top'' \<notin> set (detect_patterns xs peaks valleys))
   \<and> (2 \<le> length valleys \<and> xs ! (valleys ! (length valleys - 2)) = Fin 0 \<longrightarrow>
      ''Double Bottom'' \<notin> set (detect_patterns xs peaks valleys))"
  unfolding label_double_top label_double_bottom
  using last_two_close_zero_reference [of peaks xs] last_two_close_zero_reference [of valleys xs]
  by blast

theorem zero_reference_never_matches_witness:
  "''Double Top'' \<notin> set (detect_patterns [Fin (-1), Fin 0, Fin (-1), Fin 3, Fin (-1)] [1, 3] [2])"
  using zero_reference_never_matches [of "[1, 3]" "[Fin (-1), Fin 0, Fin (-1), Fin 3, Fin (-1)]" "[2]"]
  by simp

text \<open>
  Negative zero is a zero too (\<^verbatim>\<open>-0.0 == 0\<close>), and the JSON number \<^verbatim>\<open>-0.0\<close> decodes to
  it. With the peaks -0.0 and 3 the quotient is minus infinity, which is below 0.02, and
  Double Top is reported.
\<close>

theorem negative_zero_reference_counterexample:
  "f_eq NegZero (Fin 0)
   \<and> fst (analyze_patterns fair_world
        (JObj [(''data'', JArr [JObj [(''close'', JInt (-1))], JObj [(''close'', JFloat NegZero)],
                               JObj [(''close'', JInt (-1))], JObj [(''close'', JInt 3)],
                               JObj [(''close'', JInt (-1))]])])) =
     Inr (JObj [(''symbol'', JStr ''UNKNOWN''), (''analysis_type'', JStr ''chart_patterns''),
         (''analysis_data'', JObj [(''patterns'', JArr [JStr ''Double Top'']),
             (''peaks'', JArr [JInt 1, JInt 3]), (''valleys'', JArr [JInt 2])])])"
  by code_simp


section \<open>Properties of the request validation\<close>

lemma map_of_tabulate:
  "map_of (map (\<lambda>k. (k, f k)) ks) k = (if k \<in> set ks then Some (f k) else None)"
  by (induction ks) simp_all

lemma set_column_names: "set (column_names rows) = set (concat (map (map fst) rows))"
  by (simp add: column_names_def)

lemma has_column_records:
  "has_column (frame_of_records rows) k = (\<exists>r \<in> set rows. map_of r k \<noteq> None)"
proof -
  have "has_column (frame_of_records rows) k = (k \<in> set (column_names rows))"
    by (simp add: has_column_def frame_of_records_def comp_def)
  also have "\<dots> = (\<exists>r \<in> set rows. k \<in> fst ` set r)"
    by (auto simp: set_column_names)
  also have "\<dots> = (\<exists>r \<in> set rows. map_of r k \<noteq> None)"
    by (simp add: map_of_eq_None_iff)
  finally show ?thesis .
qed

lemma column_records:
  "has_column (frame_of_records rows) k \<Longrightarrow>
   column (frame_of_records rows) k = map (\<lambda>r. dict_get r k (JFloat NaN)) rows"
proof -
  assume "has_column (frame_of_records rows) k"
  then have "k \<in> set (column_names rows)"
    by (simp add: has_column_def frame_of_records_def comp_def)
  then show ?thesis
    by (simp add: column_def frame_of_records_def map_of_tabulate)
qed

lemma frame_empty_records:
  "has_column (frame_of_records rows) k \<Longrightarrow> frame_empty (frame_of_records rows) = (rows = [])"
  by (auto simp: frame_empty_def frame_of_records_def has_column_def)

lemma astype_float_ok:
  "(\<exists>xs. astype_float w cs = Inr xs) = list_all (coercible w) cs"
  by (induction cs) (auto simp: coercible_def split: sum.splits)

lemma close_prices_of_records:
  assumes d: "dict_get kvs ''data'' JNull = JArr rows" and o: "list_all is_obj rows"
  shows "(\<exists>cp. close_prices_of w kvs = Inr cp) =
           (rows \<noteq> [] \<and> list_ex has_close rows \<and> list_all (\<lambda>r. coercible w (close_cell r)) rows)"
proof (cases "rows = []")
  case True
  then show ?thesis using d by (simp add: close_prices_of_def)
next
  case False
  let ?df = "frame_of_records (map obj_fields rows)"
  have df: "DataFrame w (JArr rows) = Inr ?df"
    using False o by (simp add: DataFrame_def)
  have hc: "has_column ?df ''close'' = list_ex has_close rows"
    by (simp add: has_column_records has_close_def list_ex_iff)
  show ?thesis
  proof (cases "list_ex has_close rows")
    case True
    with hc have h: "has_column ?df ''close''" by simp
    have ne: "\<not> frame_empty ?df" using frame_empty_records [OF h] False by simp
    have col: "column ?df ''close'' = map close_cell rows"
      using column_records [OF h] by (simp add: close_cell_def comp_def)
    have "close_prices_of w kvs = astype_float w (map close_cell rows)"
      using d False df h ne col by (simp add: close_prices_of_def)
    then show ?thesis
      using True False astype_float_ok [of w "map close_cell rows"]
      by (simp add: list_all_iff)
  next
    case no: False
    with hc have "\<not> has_column ?df ''close''" by simp
    then have "close_prices_of w kvs = Inl (ValueError ''Data must contain non-empty 'close' prices.'')"
      using d False df by (simp add: close_prices_of_def)
    with no show ?thesis by simp
  qed
qed

text \<open>
  C5, as the code has it. For a request whose series is a list of dicts, the request is
  rejected before the analysis, with a failure result, exactly when the series is empty,
  or no row carries a close value, or the close cell of some row does not convert to
  float (a string that \<^verbatim>\<open>float\<close> refuses, a list, a dict, an integer beyond the range
  of float64). A row without a close value counts as NaN once another row carries one, and so
  does a close value of null: both convert.
\<close>

theorem request_rejected_iff:
  assumes "dict_get kvs ''data'' JNull = JArr rows" and "list_all is_obj rows"
  shows "(\<exists>e. analyze_patterns w (JObj kvs) =
              (Inr (failure_result (dict_get kvs ''symbol'' (JStr ''UNKNOWN'')) e),
               [LogException ''Pattern analysis failed'']))
         = (rows = [] \<or> \<not> list_ex has_close rows
              \<or> \<not> list_all (\<lambda>r. coercible w (close_cell r)) rows)"
proof -
  have "(\<exists>e. analyze_patterns w (JObj kvs) =
              (Inr (failure_result (dict_get kvs ''symbol'' (JStr ''UNKNOWN'')) e),
               [LogException ''Pattern analysis failed'']))
        = (\<not> (\<exists>cp. close_prices_of w kvs = Inr cp))"
    by (cases "close_prices_of w kvs") (auto simp: analyze_patterns_dict)
  then show ?thesis
    unfolding close_prices_of_records [OF assms] by blast
qed

theorem request_rejected_iff_witness:
  "analyze_patterns fair_world (JObj [(''data'', JArr [JObj [(''close'', JStr ''n/a'')]])]) =
     (Inr (JObj [(''symbol'', JStr ''UNKNOWN''), (''analysis_type'', JStr ''chart_patterns''),
                 (''error'', JStr ''could not convert string to float'')]),
      [LogException ''Pattern analysis failed''])
   \<and> \<not> (\<exists>e. analyze_patterns fair_world
               (JObj [(''data'', JArr [JObj [(''close'', JInt 1)], JObj [(''close'', JNull)]])]) =
             (Inr (failure_result (JStr ''UNKNOWN'') e), [LogException ''Pattern analysis failed'']))"
proof
  show "analyze_patterns fair_world (JObj [(''data'', JArr [JObj [(''close'', JStr ''n/a'')]])]) =
     (Inr (JObj [(''symbol'', JStr ''UNKNOWN''), (''analysis_type'', JStr ''chart_patterns''),
                 (''error'', JStr ''could not convert string to float'')]),
      [LogException ''Pattern analysis failed''])"
    by code_simp
  have d: "dict_get [(''data'', JArr [JObj [(''close'', JInt 1)], JObj [(''close'', JNull)]])] ''data'' JNull =
           JArr [JObj [(''close'', JInt 1)], JObj [(''close'', JNull)]]"
    by (simp add: dict_get_def)
  have o: "list_all is_obj [JObj [(''close'', JInt 1)], JObj [(''close'', JNull)]]" by simp
  have s: "dict_get [(''data'', JArr [JObj [(''close'', JInt 1)], JObj [(''close'', JNull)]])] ''symbol'' (JStr ''UNKNOWN'') =
           JStr ''UNKNOWN''"
    by (simp add: dict_get_def)
  show "\<not> (\<exists>e. analyze_patterns fair_world
               (JObj [(''data'', JArr [JObj [(''close'', JInt 1)], JObj [(''close'', JNull)]])]) =
             (Inr (failure_result (JStr ''UNKNOWN'') e), [LogException ''Pattern analysis failed'']))"
    using request_rejected_iff [OF d o, of fair_world]
    by (simp add: s has_close_def close_cell_def coercible_def dict_get_def float_overflows_def)
qed

text \<open>
  An integer close value too large for a float is among the values that do not convert:
  the OverflowError is caught like any other and the request is rejected.
\<close>

lemma huge_close_is_rejected:
  "analyze_patterns fair_world (JObj [(''data'', JArr [JObj [(''close'', JInt (10 ^ 400))]])]) =
     (Inr (JObj [(''symbol'', JStr ''UNKNOWN''), (''analysis_type'', JStr ''chart_patterns''),
                 (''error'', JStr ''int too large to convert to float'')]),
      [LogException ''Pattern analysis failed''])"
  by code_simp

text \<open>
  The specification rejects every request in which some row lacks a close value. A series of two
  rows, the second without close, is analysed and gets a success payload.
\<close>

theorem missing_close_accepted_counterexample:
  "fst (analyze_patterns fair_world
         (JObj [(''data'', JArr [JObj [(''close'', JInt 1)], JObj [(''open'', JInt 2)]])])) =
     Inr (JObj [(''symbol'', JStr ''UNKNOWN''), (''analysis_type'', JStr ''chart_patterns''),
         (''analysis_data'', JObj [(''patterns'', JArr [JStr ''No recognizable patterns'']),
             (''peaks'', JArr []), (''valleys'', JArr [])])])"
  by code_simp


section \<open>Properties of the peaks and valleys\<close>

lemma f_eq_sym: "f_eq a b = f_eq b a"
  by (cases a; cases b) auto

lemma f_lt_asym: "f_lt a b \<Longrightarrow> \<not> f_lt b a"
  by (cases a; cases b) auto

lemma f_lt_neg: "f_lt (f_neg a) (f_neg b) = f_lt b a"
  by (cases a; cases b) auto

lemma f_eq_neg: "f_eq (f_neg a) (f_neg b) = f_eq a b"
  by (cases a; cases b) auto

lemma no_flat_nth: "no_flat x \<Longrightarrow> i + 1 < length x \<Longrightarrow> \<not> f_eq (x ! i) (x ! (i + 1))"
proof (induction x arbitrary: i rule: no_flat.induct)
  case (1 a b xs)
  then show ?case by (cases i) simp_all
qed simp_all

lemma no_flat_map_neg: "no_flat (map f_neg x) = no_flat x"
  by (induction x rule: no_flat.induct) (simp_all add: f_eq_neg)

lemma plateau_end_le: "i_ahead \<le> i_max \<Longrightarrow> plateau_end x i i_max i_ahead \<le> i_max"
proof (induction x i i_max i_ahead rule: plateau_end.induct)
  case (1 x i i_max i_ahead)
  show ?case
  proof (cases "i_ahead < i_max \<and> f_eq (x ! i_ahead) (x ! i)")
    case True
    then have "plateau_end x i i_max (i_ahead + 1) \<le> i_max" using "1.IH" by simp
    moreover have "plateau_end x i i_max i_ahead = plateau_end x i i_max (i_ahead + 1)"
      using True by (subst plateau_end.simps) simp
    ultimately show ?thesis by simp
  next
    case False
    then have "plateau_end x i i_max i_ahead = i_ahead" by (subst plateau_end.simps) auto
    with "1.prems" show ?thesis by simp
  qed
qed

lemma plateau_end_no_flat:
  assumes "no_flat x" and "i_max < length x" and "i < i_max"
  shows "plateau_end x i i_max (i + 1) = i + 1"
proof -
  have "\<not> f_eq (x ! (i + 1)) (x ! i)"
    using no_flat_nth [OF assms(1), of i] assms(2,3) by (simp add: f_eq_sym)
  then show ?thesis by (subst plateau_end.simps) simp
qed

lemma local_maxima_from_strict:
  assumes nf: "no_flat x" and im: "i_max < length x"
  shows "local_maxima_from x i_max i =
           filter (\<lambda>i. f_lt (x ! (i - 1)) (x ! i) \<and> f_lt (x ! (i + 1)) (x ! i)) [i..<i_max]"
    (is "_ = filter ?P _")
proof (induction "i_max - i" arbitrary: i rule: less_induct)
  case less
  show ?case
  proof (cases "i < i_max")
    case False
    then show ?thesis by (subst local_maxima_from.simps) simp
  next
    case True
    have pe: "plateau_end x i i_max (i + 1) = i + 1"
      by (rule plateau_end_no_flat [OF nf im True])
    have up: "[i..<i_max] = i # [i + 1..<i_max]" using True by (simp add: upt_conv_Cons)
    have ih1: "local_maxima_from x i_max (i + 1) = filter ?P [i + 1..<i_max]"
      using less [of "i + 1"] True by simp
    show ?thesis
    proof (cases "?P i")
      case False
      then have "local_maxima_from x i_max i = local_maxima_from x i_max (i + 1)"
        using True pe by (subst local_maxima_from.simps) (auto simp: Let_def)
      with ih1 False up show ?thesis by simp
    next
      case p: True
      have ih2: "local_maxima_from x i_max (i + 2) = filter ?P [i + 2..<i_max]"
        using less [of "i + 2"] True by simp
      have "local_maxima_from x i_max i = i # local_maxima_from x i_max (i + 2)"
        using True pe p by (subst local_maxima_from.simps) (simp add: Let_def)
      moreover have "filter ?P [i + 1..<i_max] = filter ?P [i + 2..<i_max]"
      proof (cases "i + 1 < i_max")
        case True
        have "\<not> ?P (i + 1)" using p f_lt_asym by auto
        moreover have "[i + 1..<i_max] = (i + 1) # [i + 2..<i_max]"
          using True by (simp add: upt_conv_Cons)
        ultimately show ?thesis by simp
      next
        case False
        then show ?thesis by simp
      qed
      ultimately show ?thesis using ih2 p up by simp
    qed
  qed
qed

lemma local_maxima_from_interior:
  "p \<in> set (local_maxima_from x i_max i) \<Longrightarrow> i \<le> p \<and> p < i_max"
proof (induction "i_max - i" arbitrary: i rule: less_induct)
  case less
  show ?case
  proof (cases "i < i_max")
    case False
    with less.prems show ?thesis by (subst (asm) local_maxima_from.simps) simp
  next
    case True
    let ?pe = "plateau_end x i i_max (i + 1)"
    have ge: "i + 1 \<le> ?pe" by (rule plateau_end_ge)
    have le: "?pe \<le> i_max" using True by (intro plateau_end_le) simp
    from less.prems True
    consider "p = (i + (?pe - 1)) div 2" 
      | "p \<in> set (local_maxima_from x i_max (?pe + 1))"
      | "p \<in> set (local_maxima_from x i_max (i + 1))"
      by (subst (asm) local_maxima_from.simps) (auto simp: Let_def split: if_splits)
    then show ?thesis
    proof cases
      case 1
      with ge le show ?thesis by auto
    next
      case 2
      have "i_max - (?pe + 1) < i_max - i" using ge True by simp
      from less.hyps [OF this 2] ge show ?thesis by simp
    next
      case 3
      have "i_max - (i + 1) < i_max - i" using True by simp
      from less.hyps [OF this 3] show ?thesis by simp
    qed
  qed
qed

lemma find_peaks_strict: "no_flat x \<Longrightarrow> find_peaks x = strict_peaks x"
proof (cases "x = []")
  case True
  then show ?thesis
    by (simp add: find_peaks_def strict_peaks_def) (subst local_maxima_from.simps, simp)
next
  case False
  assume "no_flat x"
  moreover have "length x - 1 < length x" using False by simp
  ultimately show ?thesis
    unfolding find_peaks_def strict_peaks_def by (rule local_maxima_from_strict)
qed

lemma find_valleys_strict:
  assumes "no_flat x"
  shows "find_peaks (map f_neg x) = strict_valleys x"
proof -
  have "find_peaks (map f_neg x) = strict_peaks (map f_neg x)"
    using assms by (intro find_peaks_strict) (simp add: no_flat_map_neg)
  also have "\<dots> = strict_valleys x"
    unfolding strict_peaks_def strict_valleys_def
    by (rule filter_cong) (auto simp: f_lt_neg)
  finally show ?thesis .
qed

lemma find_peaks_interior: "p \<in> set (find_peaks x) \<Longrightarrow> 0 < p \<and> p + 1 < length x"
  unfolding find_peaks_def using local_maxima_from_interior [of p x "length x - 1" 1] by auto

text \<open>
  C7, as the code has it. In a series with no two adjacent values equal, the peaks are
  exactly the interior indices strictly above both neighbours, and the valleys (the
  peaks of the negated series) exactly those strictly below both. In every series, an
  index reported as a peak or a valley is neither 0 nor the last one. For the series
  1, 3, 1, 3, 1 the peaks are 1 and 3 and the only valley is 2.
\<close>

theorem peaks_are_strict_interior_extrema:
  "(no_flat x \<longrightarrow> find_peaks x = strict_peaks x \<and> find_peaks (map f_neg x) = strict_valleys x)
   \<and> (\<forall>p \<in> set (find_peaks x) \<union> set (find_peaks (map f_neg x)). 0 < p \<and> p + 1 < length x)
   \<and> find_peaks [Fin 1, Fin 3, Fin 1, Fin 3, Fin 1] = [1, 3]
   \<and> find_peaks (map f_neg [Fin 1, Fin 3, Fin 1, Fin 3, Fin 1]) = [2]"
proof (intro conjI impI ballI)
  fix p assume "p \<in> set (find_peaks x) \<union> set (find_peaks (map f_neg x))"
  then show "0 < p" and "p + 1 < length x"
    using find_peaks_interior [of p x] find_peaks_interior [of p "map f_neg x"] by auto
next
  show "find_peaks [Fin 1, Fin 3, Fin 1, Fin 3, Fin 1] = [1, 3]" by code_simp
  show "find_peaks (map f_neg [Fin 1, Fin 3, Fin 1, Fin 3, Fin 1]) = [2]" by code_simp
qed (simp_all add: find_peaks_strict find_valleys_strict)

theorem peaks_are_strict_interior_extrema_witness:
  "no_flat [Fin 10, Fin 12, Fin 10, Fin 15, Fin 10, Fin 13, Fin 10]
   \<and> find_peaks [Fin 10, Fin 12, Fin 10, Fin 15, Fin 10, Fin 13, Fin 10] = [1, 3, 5]
   \<and> find_peaks (map f_neg [Fin 10, Fin 12, Fin 10, Fin 15, Fin 10, Fin 13, Fin 10]) = [2, 4]"
proof -
  have nf: "no_flat [Fin 10, Fin 12, Fin 10, Fin 15, Fin 10, Fin 13, Fin 10]" by simp
  have sp: "strict_peaks [Fin 10, Fin 12, Fin 10, Fin 15, Fin 10, Fin 13, Fin 10] = [1, 3, 5]"
    by code_simp
  have sv: "strict_valleys [Fin 10, Fin 12, Fin 10, Fin 15, Fin 10, Fin 13, Fin 10] = [2, 4]"
    by code_simp
  from peaks_are_strict_interior_extrema [of "[Fin 10, Fin 12, Fin 10, Fin 15, Fin 10, Fin 13, Fin 10]"] nf
  have "find_peaks [Fin 10, Fin 12, Fin 10, Fin 15, Fin 10, Fin 13, Fin 10] =
          strict_peaks [Fin 10, Fin 12, Fin 10, Fin 15, Fin 10, Fin 13, Fin 10]"
   and "find_peaks (map f_neg [Fin 10, Fin 12, Fin 10, Fin 15, Fin 10, Fin 13, Fin 10]) =
          strict_valleys [Fin 10, Fin 12, Fin 10, Fin 15, Fin 10, Fin 13, Fin 10]"
    by blast+
  with nf sp sv show ?thesis by simp
qed

text \<open>
  The specification allows no plateau. A flat top is reported at its middle index: in
  1, 3, 3, 1 the index 1 is a peak, and it is not strictly above its right neighbour.
\<close>

theorem flat_top_counterexample:
  "find_peaks [Fin 1, Fin 3, Fin 3, Fin 1] = [1]
   \<and> strict_peaks [Fin 1, Fin 3, Fin 3, Fin 1] = []"
  by code_simp

end
